theory Spec2Isabelle
  imports Complex_Main "HOL-Library.Word" "HOL-Library.Sublist"
begin

section \<open>The image admission pipeline of aragon-backend\<close>

text \<open>
  A shallow embedding of \<^verbatim>\<open>src/services/image/*.js\<close> (size validation, duplicate
  detection, processor), of the face override wrapper and the blur detector, and of the
  controller's manual trigger. The libraries the code calls (sharp, crypto, prisma's
  connection, the blob store) are not part of the repository: what they return for a
  buffer is a field of the environment record \<open>env\<close>, a function that either yields a
  value (\<open>Inr\<close>) or throws an Error with a message (\<open>Inl\<close>). A JavaScript exception is
  its message, a string.
\<close>

subsection \<open>Buffers, numbers as text, substrings\<close>

type_synonym buffer = "8 word list"

text \<open>What \<^verbatim>\<open>sharp(buffer).metadata()\<close> yields for a decodable image.\<close>

record metadata =
  width :: nat
  height :: nat
  format :: string

text \<open>The \<^verbatim>\<open>{ isValid, reason }\<close> objects of the validators.\<close>

record validation =
  isValid :: bool
  reason :: "string option"

definition digit_char :: "nat \<Rightarrow> char" where
  "digit_char d =
     (if d = 0 then CHR ''0'' else if d = 1 then CHR ''1'' else if d = 2 then CHR ''2''
      else if d = 3 then CHR ''3'' else if d = 4 then CHR ''4'' else if d = 5 then CHR ''5''
      else if d = 6 then CHR ''6'' else if d = 7 then CHR ''7'' else if d = 8 then CHR ''8''
      else CHR ''9'')"

text \<open>A non-negative integer inside a template literal: its decimal digits.\<close>

fun string_of_nat :: "nat \<Rightarrow> string" where
  "string_of_nat n =
     (if n < 10 then [digit_char n] else string_of_nat (n div 10) @ [digit_char (n mod 10)])"

declare string_of_nat.simps [simp del]

text \<open>
  \<^verbatim>\<open>(imageBuffer.length / 1024).toFixed(1)\<close>. The quotient by 1024 is exact in a double,
  and \<open>toFixed(1)\<close> picks the integer \<open>r\<close> with \<open>r / 10\<close> nearest to it, the larger one
  on a tie: \<open>r = \<lfloor>(10 n + 512) / 1024\<rfloor>\<close>.
\<close>

definition tenths_of_KB :: "nat \<Rightarrow> nat" where
  "tenths_of_KB n = (n * 10 + 512) div 1024"

definition toFixed1_KB :: "nat \<Rightarrow> string" where
  "toFixed1_KB n =
     string_of_nat (tenths_of_KB n div 10) @ ''.'' @ [digit_char (tenths_of_KB n mod 10)]"

text \<open>\<^verbatim>\<open>s.includes(t)\<close>: \<open>t\<close> occurs in \<open>s\<close> as a contiguous substring.\<close>

fun js_includes :: "string \<Rightarrow> string \<Rightarrow> bool" where
  "js_includes [] t = (t = [])"
| "js_includes (c # s) t = (prefix t (c # s) \<or> js_includes s t)"

subsection \<open>Size validation (sizeValidation.js)\<close>

definition MIN_WIDTH :: nat where "MIN_WIDTH = 800"
definition MIN_HEIGHT :: nat where "MIN_HEIGHT = 800"
definition MIN_SIZE_IN_BYTES :: nat where "MIN_SIZE_IN_BYTES = 100 * 1024"

definition validateImageSize :: "(buffer \<Rightarrow> string + metadata) \<Rightarrow> buffer \<Rightarrow> validation" where
  "validateImageSize sharp_metadata imageBuffer =
     (case sharp_metadata imageBuffer of
        Inl message \<Rightarrow>
          \<lparr>isValid = False, reason = Some (''Failed to validate image: '' @ message)\<rparr>
      | Inr metadata \<Rightarrow>
          if width metadata < MIN_WIDTH \<or> height metadata < MIN_HEIGHT then
            \<lparr>isValid = False,
             reason = Some (''Image resolution too low. Minimum required: ''
               @ string_of_nat MIN_WIDTH @ ''x'' @ string_of_nat MIN_HEIGHT @ ''px, got: ''
               @ string_of_nat (width metadata) @ ''x'' @ string_of_nat (height metadata)
               @ ''px'')\<rparr>
          else if length imageBuffer < MIN_SIZE_IN_BYTES then
            \<lparr>isValid = False,
             reason = Some (''Image file size too small. Minimum required: ''
               @ string_of_nat (MIN_SIZE_IN_BYTES div 1024) @ ''KB, got: ''
               @ toFixed1_KB (length imageBuffer) @ ''KB'')\<rparr>
          else \<lparr>isValid = True, reason = None\<rparr>)"

subsection \<open>The catch block of processImage (processor.js, lines 198-232)\<close>

text \<open>
  The pair (userFriendlyMessage, validationError) the catch block picks from the message
  of the exception it caught.
\<close>

definition categorizeError :: "string \<Rightarrow> string \<times> string" where
  "categorizeError message =
     (if js_includes message ''duplicate'' then
        (''This image appears to be a duplicate of one you've already uploaded'',
         ''duplicate_image_detected'')
      else if js_includes message ''resolution'' \<or> js_includes message ''dimensions'' then
        (''Image resolution is too low. Please upload a larger image (minimum 800x800px)'',
         ''size_validation_failed'')
      else if js_includes message ''size'' then
        (''Image file size is too small. Please upload a larger image file (minimum 100KB)'',
         ''size_validation_failed'')
      else if js_includes message ''format'' \<or> js_includes message ''unsupported'' then
        (''Unsupported image format. Please use JPEG, PNG, or HEIC formats'',
         ''format_validation_failed'')
      else if js_includes message ''face'' then
        (''Multiple faces detected in image. Please upload a photo with at most one face.'',
         ''multiple_faces_detected'')
      else (''Image processing failed'', ''processing_error''))"

subsection \<open>The record store\<close>

datatype status = PENDING | PROCESSING | PROCESSED | FAILED

text \<open>
  The JSON column \<open>metaData\<close>: every key is optional, and an update replaces the whole
  object. The opaque diagnostics (faceData, blurDetails, processingTime) are left out.
\<close>

record meta_data =
  rejectionReason :: "string option"
  validationErrors :: "string list option"
  pHash :: "string option"
  similarTo :: "string option"
  technicalError :: "string option"
  metaWidth :: "nat option"
  metaHeight :: "nat option"
  metaFormat :: "string option"
  fileSize :: "nat option"
  metaFaceCount :: "nat option"

definition no_meta :: meta_data where
  "no_meta = \<lparr>rejectionReason = None, validationErrors = None, pHash = None,
     similarTo = None, technicalError = None, metaWidth = None, metaHeight = None,
     metaFormat = None, fileSize = None, metaFaceCount = None\<rparr>"

text \<open>
  The projection \<^verbatim>\<open>select: { id, originalName, metaData }\<close> is the record \<open>candidate\<close>;
  a full row extends it, and \<open>candidate_of\<close> drops the other columns.
\<close>

record candidate =
  imageId :: string
  originalName :: string
  metaData :: "meta_data option"

record image = candidate +
  originalSize :: nat
  originalPath :: string
  processedPath :: "string option"
  processedSize :: "nat option"
  fileType :: string
  status :: status

definition candidate_of :: "image \<Rightarrow> candidate" where
  "candidate_of img =
     \<lparr>imageId = imageId img, originalName = originalName img, metaData = metaData img\<rparr>"

text \<open>The table, in the order the database returns its rows.\<close>

type_synonym table = "image list"

definition findUnique :: "table \<Rightarrow> string \<Rightarrow> image option" where
  "findUnique t i = find (\<lambda>r. imageId r = i) t"

subsection \<open>Duplicate detection (duplicateDetection.js)\<close>

text \<open>
  \<^verbatim>\<open>findMany({ where: { status: "PROCESSED", ...(excludeId && { id: { not: excludeId } }) },
  select: { id, originalName, metaData } })\<close>. A null or empty \<open>excludeId\<close> is falsy
  and adds no condition.
\<close>

definition findProcessedImages :: "table \<Rightarrow> string option \<Rightarrow> candidate list" where
  "findProcessedImages t excludeId =
     map candidate_of
       (filter (\<lambda>r. status r = PROCESSED \<and>
                  (case excludeId of None \<Rightarrow> True | Some e \<Rightarrow> e = [] \<or> imageId r \<noteq> e)) t)"

text \<open>\<open>toLowerCase\<close> on the ASCII letters; other bytes are kept.\<close>

definition toLowerCase_char :: "char \<Rightarrow> char" where
  "toLowerCase_char c =
     (case map_of (zip ''ABCDEFGHIJKLMNOPQRSTUVWXYZ'' ''abcdefghijklmnopqrstuvwxyz'') c of
        Some l \<Rightarrow> l
      | None \<Rightarrow> c)"

definition toLowerCase :: "string \<Rightarrow> string" where
  "toLowerCase s = map toLowerCase_char s"

text \<open>\<^verbatim>\<open>parseInt(h, 16)\<close> of a one-character string; \<open>None\<close> is NaN.\<close>

definition parseInt16 :: "char \<Rightarrow> nat option" where
  "parseInt16 h =
     map_of (zip ''0123456789abcdefABCDEF''
               [0, 1, 2, 3, 4, 5, 6, 7, 8, 9, 10, 11, 12, 13, 14, 15, 10, 11, 12, 13, 14, 15]) h"

text \<open>\<^verbatim>\<open>n.toString(2).padStart(4, "0")\<close> for \<open>n < 16\<close>; NaN prints as "NaN".\<close>

definition bit_char :: "bool \<Rightarrow> char" where
  "bit_char b = (if b then CHR ''1'' else CHR ''0'')"

definition toString2_pad4 :: "nat option \<Rightarrow> string" where
  "toString2_pad4 v =
     (case v of
        None \<Rightarrow> ''0NaN''
      | Some n \<Rightarrow> [bit_char (odd (n div 8)), bit_char (odd (n div 4)),
                   bit_char (odd (n div 2)), bit_char (odd n)])"

definition hexToBinary :: "string \<Rightarrow> string" where
  "hexToBinary hex = concat (map (\<lambda>h. toString2_pad4 (parseInt16 h)) hex)"

text \<open>
  The loop \<^verbatim>\<open>for (i = 0; i < Math.min(binary1.length, binary2.length); i++)
  if (binary1[i] !== binary2[i]) distance++\<close>.
\<close>

fun hamming_distance :: "string \<Rightarrow> string \<Rightarrow> nat" where
  "hamming_distance (a # as) (b # bs) = (if a \<noteq> b then 1 else 0) + hamming_distance as bs"
| "hamming_distance _ _ = 0"

definition SIMILARITY_THRESHOLD :: nat where "SIMILARITY_THRESHOLD = 3"

text \<open>
  The guard \<^verbatim>\<open>image.metaData && image.metaData.pHash\<close>: the stored hash of a candidate
  that has one (null, a missing key and the empty string are falsy).
\<close>

definition stored_hash :: "candidate \<Rightarrow> string option" where
  "stored_hash c =
     (case metaData c of
        None \<Rightarrow> None
      | Some m \<Rightarrow> (case pHash m of None \<Rightarrow> None | Some h \<Rightarrow> if h = [] then None else Some h))"

definition similar_hash :: "string \<Rightarrow> candidate \<Rightarrow> bool" where
  "similar_hash hash c =
     (case stored_hash c of
        None \<Rightarrow> False
      | Some existingHash \<Rightarrow>
          hamming_distance (hexToBinary hash) (hexToBinary existingHash) \<le> SIMILARITY_THRESHOLD)"

text \<open>The \<open>for ... of\<close> loop with its \<open>break\<close>: the first similar candidate.\<close>

fun hash_scan :: "string \<Rightarrow> candidate list \<Rightarrow> candidate option" where
  "hash_scan hash [] = None"
| "hash_scan hash (c # cs) = (if similar_hash hash c then Some c else hash_scan hash cs)"

record duplicate_check =
  isDuplicate :: bool
  similarImage :: "candidate option"

text \<open>
  \<open>checkDuplicateImage\<close>. Its first argument is what the query sees: the table, or the
  message of the error prisma throws. The whole body is inside \<open>try\<close>, and the \<open>catch\<close>
  returns the no-duplicate object.
\<close>

definition checkDuplicateImage ::
  "string + table \<Rightarrow> string \<Rightarrow> string option \<Rightarrow> string \<Rightarrow> duplicate_check" where
  "checkDuplicateImage db hash excludeId originalFileName =
     (case db of
        Inl error \<Rightarrow> \<lparr>isDuplicate = False, similarImage = None\<rparr>
      | Inr t \<Rightarrow>
          let processedImages = findProcessedImages t excludeId;
              exactMatch =
                (if originalFileName \<noteq> [] then
                   find (\<lambda>img. toLowerCase (originalName img) = toLowerCase originalFileName)
                     processedImages
                 else None)
          in case exactMatch of
               Some m \<Rightarrow> \<lparr>isDuplicate = True, similarImage = Some m\<rparr>
             | None \<Rightarrow>
                 (case hash_scan hash processedImages of
                    Some c \<Rightarrow> \<lparr>isDuplicate = True, similarImage = Some c\<rparr>
                  | None \<Rightarrow> \<lparr>isDuplicate = False, similarImage = None\<rparr>))"

subsection \<open>The analysers' results and the environment\<close>

record face_details =
  faceCount :: "nat option"
  override :: bool
  avgStdDev :: "rat option"
  validationFailed :: bool
  detectionFailed :: bool

text \<open>
  What \<open>detectFaces\<close> returns, as far as \<open>validateFaceCount\<close> reads it: the face count,
  the number of entries of \<open>details\<close>, and whether some entry has a confidence above 0.5
  or one of the flags highResolution, directAnalysis, wideAspectRatio.
\<close>

record face_detection =
  detectedFaces :: nat
  regions :: nat
  hasMultipleFaceIndicators :: bool

record face_validation = validation +
  details :: face_details

text \<open>
  What the four sharp passes of \<open>detectBlurryImage\<close> measure. The first three votes
  compare floating-point ratios with their thresholds (0.2, 15 per cent, 3 per cent) and
  are taken as measured; the gradient sums, the width and the height are integers.
\<close>

record blur_analysis =
  isBlurryBySharpening :: bool
  isBlurryByBlockAnalysis :: bool
  isBlurryByEdgeDistribution :: bool
  horizGradientSum :: nat
  vertGradientSum :: nat
  imageWidth :: nat
  imageHeight :: nat

record blur_detection =
  isBlurry :: bool
  blurReason :: "string option"
  blurryVotes :: "nat option"

text \<open>
  The collaborators. \<open>detectFaces\<close> (the grid heuristic with its edge-density fallback)
  and \<open>checkForPortraitWithSolidBackground\<close> catch every exception themselves, so they
  always return; \<open>md5\<close> is \<^verbatim>\<open>crypto.createHash("md5").update(b).digest()\<close>, 128 bits;
  \<open>processedFilename\<close> is the name derived from the original name and \<open>Date.now()\<close>;
  \<open>findMany_error\<close> is the error of the candidate query when the database fails;
  \<open>development\<close> is \<^verbatim>\<open>process.env.NODE_ENV === "development"\<close>.
\<close>

record env =
  getImageBuffer :: "string \<Rightarrow> string + buffer"
  sharp_metadata :: "buffer \<Rightarrow> string + metadata"
  sharp_stats :: "buffer \<Rightarrow> string + rat list"
  detectFaces :: "buffer \<Rightarrow> face_detection"
  checkForPortraitWithSolidBackground :: "buffer \<Rightarrow> bool"
  blur_measurements :: "buffer \<Rightarrow> string + blur_analysis"
  grayscale_stdev :: "buffer \<Rightarrow> string + rat"
  resize32_grayscale_raw :: "buffer \<Rightarrow> string + buffer"
  md5 :: "buffer \<Rightarrow> 128 word"
  resize_jpeg :: "buffer \<Rightarrow> string + buffer"
  saveImageToStorage :: "buffer \<Rightarrow> string \<Rightarrow> string + string"
  processedFilename :: "string \<Rightarrow> string"
  findMany_error :: "string option"
  development :: bool

subsection \<open>Perceptual hash (duplicateDetection.js, generateImageHash)\<close>

text \<open>
  \<open>avg = sum / length\<close> and the test \<^verbatim>\<open>resizedImage[i] >= avg\<close>. The pixels are integers
  below 256, so the rounding of the quotient to a double never changes the comparison;
  the model compares with the exact quotient.
\<close>

definition average :: "buffer \<Rightarrow> rat" where
  "average px = of_nat (sum_list (map unat px)) / of_nat (length px)"

definition binaryHash :: "buffer \<Rightarrow> string" where
  "binaryHash resizedImage =
     map (\<lambda>p. bit_char (average resizedImage \<le> of_nat (unat p))) resizedImage"

text \<open>\<^verbatim>\<open>.match(/.{1,8}/g)\<close> on a non-empty string: chunks of eight, the last one shorter.\<close>

fun match_1_8 :: "'a list \<Rightarrow> 'a list list" where
  "match_1_8 [] = []"
| "match_1_8 (x # xs) = take 8 (x # xs) # match_1_8 (drop 7 xs)"

text \<open>\<^verbatim>\<open>parseInt(byte, 2)\<close> of a string of 0s and 1s: the first character weighs most.\<close>

definition parseInt2 :: "string \<Rightarrow> nat" where
  "parseInt2 s = foldl (\<lambda>acc c. 2 * acc + (if c = CHR ''1'' then 1 else 0)) 0 s"

definition hex_char :: "nat \<Rightarrow> char" where
  "hex_char d =
     (if d < 10 then digit_char d
      else if d = 10 then CHR ''a'' else if d = 11 then CHR ''b'' else if d = 12 then CHR ''c''
      else if d = 13 then CHR ''d'' else if d = 14 then CHR ''e'' else CHR ''f'')"

text \<open>\<^verbatim>\<open>n.toString(16).padStart(2, "0")\<close> for \<open>n < 256\<close>.\<close>

definition toString16_pad2 :: "nat \<Rightarrow> string" where
  "toString16_pad2 n = [hex_char (n div 16), hex_char (n mod 16)]"

text \<open>\<^verbatim>\<open>Buffer.from(s, "hex")\<close>: one byte per pair of hex digits, up to the first bad pair.\<close>

fun Buffer_from_hex :: "string \<Rightarrow> buffer" where
  "Buffer_from_hex (a # b # rest) =
     (case (parseInt16 a, parseInt16 b) of
        (Some x, Some y) \<Rightarrow> of_nat (16 * x + y) # Buffer_from_hex rest
      | _ \<Rightarrow> [])"
| "Buffer_from_hex _ = []"

definition hashBuffer :: "buffer \<Rightarrow> buffer" where
  "hashBuffer resizedImage =
     Buffer_from_hex
       (concat (map (\<lambda>byte. toString16_pad2 (parseInt2 byte)) (match_1_8 (binaryHash resizedImage))))"

text \<open>\<^verbatim>\<open>.digest("hex")\<close>: the sixteen bytes of the digest, two lowercase hex digits each.\<close>

definition digest_hex :: "128 word \<Rightarrow> string" where
  "digest_hex d =
     concat (map (\<lambda>i. toString16_pad2 (unat (ucast (drop_bit (8 * (15 - i)) d) :: 8 word)))
                 [0..<16])"

text \<open>
  On an empty pixel buffer \<open>match\<close> returns null and \<open>.map\<close> throws a TypeError; like
  every exception of the body it is rethrown with the prefix below.
\<close>

definition generateImageHash :: "env \<Rightarrow> buffer \<Rightarrow> string + string" where
  "generateImageHash e imageBuffer =
     (case resize32_grayscale_raw e imageBuffer of
        Inl message \<Rightarrow> Inl (''Failed to generate image hash: '' @ message)
      | Inr resizedImage \<Rightarrow>
          if resizedImage = [] then
            Inl (''Failed to generate image hash: ''
                 @ ''Cannot read properties of null (reading 'map')'')
          else Inr (digest_hex (md5 e (hashBuffer resizedImage))))"

subsection \<open>Face validation (faceDetection.js, validateFaceCount)\<close>

text \<open>
  The aspect ratio \<open>width / height\<close> is compared with 0.68, 0.82, 1.3, 1.4 and 1.5. Width
  and height are positive integers, so a quotient that is not equal to such a bound is
  far from it, and one that is equal rounds to the same double as the literal: the
  comparisons are the exact ones, written without division.
\<close>

definition isLikelyPortrait :: "metadata \<Rightarrow> bool" where
  "isLikelyPortrait metadata \<longleftrightarrow>
     17 * height metadata \<le> 25 * width metadata \<and> 50 * width metadata \<le> 41 * height metadata"

definition reject_faces :: "string \<Rightarrow> nat option \<Rightarrow> face_validation" where
  "reject_faces why n =
     \<lparr>isValid = False, reason = Some why,
      details = \<lparr>faceCount = n, override = False, avgStdDev = None, validationFailed = False,
                 detectionFailed = False\<rparr>\<rparr>"

definition validateFaceCount :: "env \<Rightarrow> buffer \<Rightarrow> face_validation" where
  "validateFaceCount e imageBuffer =
     (case sharp_metadata e imageBuffer of
        Inl error \<Rightarrow>
          \<lparr>isValid = True, reason = None,
           details = \<lparr>faceCount = Some 0, override = False, avgStdDev = None,
                      validationFailed = False, detectionFailed = True\<rparr>\<rparr>
      | Inr metadata \<Rightarrow>
          if (width metadata \<ge> 3500 \<or> height metadata \<ge> 3000)
             \<and> 5 * width metadata > 7 * height metadata then
            reject_faces ''Multiple faces likely in high-resolution group photo. Please upload photos with at most one face.'' (Some 2)
          else if width metadata * height metadata > 8000000
             \<and> width metadata * height metadata > 12000000 \<and> \<not> isLikelyPortrait metadata then
            reject_faces ''Very large image likely contains multiple people. Please upload a photo with at most one face.'' (Some 2)
          else
            let isPortrait = isLikelyPortrait metadata
                  \<and> checkForPortraitWithSolidBackground e imageBuffer;
                faceDetection = detectFaces e imageBuffer
            in if detectedFaces faceDetection > 1 \<and> isPortrait
                  \<and> detectedFaces faceDetection \<ge> 2 then
                 reject_faces ''Multiple faces detected in portrait. Please upload photos with at most one face.''
                   (Some (detectedFaces faceDetection))
               else if detectedFaces faceDetection > 1 \<and> \<not> isPortrait
                  \<and> (hasMultipleFaceIndicators faceDetection \<or> detectedFaces faceDetection \<ge> 2) then
                 reject_faces ''Multiple faces detected. Please upload photos with at most one face.''
                   (Some (detectedFaces faceDetection))
               else if 10 * width metadata > 13 * height metadata \<and> width metadata > 1500
                  \<and> \<not> isPortrait
                  \<and> 2 * width metadata > 3 * height metadata \<and> width metadata > 2000 then
                 reject_faces ''Image format suggests multiple people. Please upload a photo with at most one face.'' None
               else if \<not> isPortrait \<and> (width metadata > 1800 \<or> height metadata > 1800)
                  \<and> regions faceDetection > 8 then
                 reject_faces ''Multiple faces likely in image. Please upload photos with at most one face.'' (Some 2)
               else if regions faceDetection > 15 \<and> \<not> isPortrait then
                 reject_faces ''Image appears to contain multiple people. Please upload a photo with at most one face.'' (Some 2)
               else
                 \<lparr>isValid = True, reason = None,
                  details = \<lparr>faceCount = Some (detectedFaces faceDetection), override = False,
                             avgStdDev = None, validationFailed = False,
                             detectionFailed = False\<rparr>\<rparr>)"

subsection \<open>The guarded face stage (faceDetection.js, validateFacesWithOverride)\<close>

definition override_accept :: "rat option \<Rightarrow> face_validation" where
  "override_accept sd =
     \<lparr>isValid = True, reason = None,
      details = \<lparr>faceCount = Some 1, override = True, avgStdDev = sd,
                 validationFailed = False,
                 detectionFailed = False\<rparr>\<rparr>"

definition fail_open_accept :: face_validation where
  "fail_open_accept =
     \<lparr>isValid = True, reason = None,
      details = \<lparr>faceCount = Some 0, override = False, avgStdDev = None,
                 validationFailed = True,
                 detectionFailed = False\<rparr>\<rparr>"

text \<open>
  \<^verbatim>\<open>channels.reduce((sum, ch) => sum + ch.stdev, 0) / channels.length\<close>; with no channel
  the quotient is NaN (\<open>None\<close>), and NaN is not below 60.
\<close>

definition averageStdDev :: "rat list \<Rightarrow> rat option" where
  "averageStdDev channels =
     (if channels = [] then None else Some (sum_list channels / of_nat (length channels)))"

definition validateFacesWithOverride :: "env \<Rightarrow> buffer \<Rightarrow> face_validation" where
  "validateFacesWithOverride e imageBuffer =
     (let result = validateFaceCount e imageBuffer in
      if \<not> isValid result then
        (case sharp_metadata e imageBuffer of
           Inl error \<Rightarrow> fail_open_accept
         | Inr metadata \<Rightarrow>
             let isPortrait = height metadata > width metadata;
                 isSmallImage = width metadata < 1200 \<and> height metadata < 1200
             in if isPortrait \<or> isSmallImage then override_accept None
                else
                  (case sharp_stats e imageBuffer of
                     Inl error \<Rightarrow> fail_open_accept
                   | Inr channels \<Rightarrow>
                       (case averageStdDev channels of
                          None \<Rightarrow> result
                        | Some sd \<Rightarrow> if sd < 60 then override_accept (Some sd) else result)))
      else result)"

subsection \<open>The blur stage (blurDetection.js, detectBlurryImage)\<close>

definition GRADIENT_THRESHOLD :: "blur_analysis \<Rightarrow> nat" where
  "GRADIENT_THRESHOLD m = imageWidth m * imageHeight m * 5"

definition isBlurryByGradient :: "blur_analysis \<Rightarrow> bool" where
  "isBlurryByGradient m \<longleftrightarrow>
     horizGradientSum m < GRADIENT_THRESHOLD m \<and> vertGradientSum m < GRADIENT_THRESHOLD m"

definition votes :: "blur_analysis \<Rightarrow> nat" where
  "votes m =
     length (filter (\<lambda>b. b)
       [isBlurryBySharpening m, isBlurryByBlockAnalysis m, isBlurryByEdgeDistribution m,
        isBlurryByGradient m])"

text \<open>
  \<^verbatim>\<open>Math.max(H, V) / Math.min(H, V) > 3\<close>: a positive sum over zero is Infinity, zero
  over zero is NaN.
\<close>

definition directionalBlurRatio_above_3 :: "blur_analysis \<Rightarrow> bool" where
  "directionalBlurRatio_above_3 m =
     (let hi = max (horizGradientSum m) (vertGradientSum m);
          lo = min (horizGradientSum m) (vertGradientSum m)
      in if lo = 0 then 0 < hi else 3 * lo < hi)"

definition isMotionBlur :: "blur_analysis \<Rightarrow> bool" where
  "isMotionBlur m \<longleftrightarrow>
     directionalBlurRatio_above_3 m \<and>
     (horizGradientSum m < GRADIENT_THRESHOLD m \<or> vertGradientSum m < GRADIENT_THRESHOLD m)"

definition advanced_blur_verdict :: "blur_analysis \<Rightarrow> blur_detection" where
  "advanced_blur_verdict m =
     (let blurry = (votes m \<ge> 2) in
      \<lparr>isBlurry = (blurry \<or> isMotionBlur m),
       blurReason =
         (if blurry \<or> isMotionBlur m then
            (if isMotionBlur m then Some ''Motion blur detected''
             else if isBlurryBySharpening m then Some ''Low frequency content (overall blur)''
             else if isBlurryByBlockAnalysis m then Some ''Insufficient sharp details''
             else if isBlurryByEdgeDistribution m then Some ''Weak edge definition''
             else if isBlurryByGradient m then Some ''Poor focus measure''
             else Some ''Multiple blur indicators detected'')
          else None),
       blurryVotes = Some (votes m)\<rparr>)"

definition detectBlurryImage :: "env \<Rightarrow> buffer \<Rightarrow> blur_detection" where
  "detectBlurryImage e imageBuffer =
     (case blur_measurements e imageBuffer of
        Inr m \<Rightarrow> advanced_blur_verdict m
      | Inl error \<Rightarrow>
          (case grayscale_stdev e imageBuffer of
             Inr stdDev \<Rightarrow>
               \<lparr>isBlurry = (stdDev < 25),
                blurReason =
                  (if stdDev < 25 then Some ''Low image contrast (fallback detection)''
                   else None),
                blurryVotes = None\<rparr>
           | Inl innerError \<Rightarrow>
               \<lparr>isBlurry = True, blurReason = Some ''Image analysis failed'',
                blurryVotes = None\<rparr>))"

subsection \<open>The pipeline (processor.js, processImage)\<close>

text \<open>
  The run threads the table and a log of its effects: every analyser it calls and every
  status it writes, in order. The log is what "invoked in this order" and "not invoked"
  are stated on.
\<close>

datatype analyzer =
  ValidateImageSize | ValidateFacesWithOverride | DetectBlurryImage
  | GenerateImageHash | CheckDuplicateImage

datatype event = Called analyzer | Updated status

record pstate =
  tbl :: table
  log :: "event list"

datatype outcome = Returned | Threw string

definition called :: "analyzer \<Rightarrow> pstate \<Rightarrow> pstate" where
  "called a s = s\<lparr>log := log s @ [Called a]\<rparr>"

text \<open>
  \<^verbatim>\<open>prisma.image.update({ where: { id }, data })\<close>: throws when no row has the id,
  otherwise rewrites the row.
\<close>

definition prisma_update :: "string \<Rightarrow> (image \<Rightarrow> image) \<Rightarrow> pstate \<Rightarrow> string + pstate" where
  "prisma_update i data s =
     (case findUnique (tbl s) i of
        None \<Rightarrow> Inl ''Record to update not found.''
      | Some r \<Rightarrow>
          Inr \<lparr>tbl = map (\<lambda>r. if imageId r = i then data r else r) (tbl s),
               log = log s @ [Updated (status (data r))]\<rparr>)"

definition set_failed :: "meta_data \<Rightarrow> image \<Rightarrow> image" where
  "set_failed m r = r\<lparr>status := FAILED, metaData := Some m\<rparr>"

definition prisma_findMany :: "env \<Rightarrow> table \<Rightarrow> string + table" where
  "prisma_findMany e t = (case findMany_error e of Some message \<Rightarrow> Inl message | None \<Rightarrow> Inr t)"

text \<open>Lines 158-197: the derivative and the PROCESSED update.\<close>

definition processImage_derivative ::
  "env \<Rightarrow> image \<Rightarrow> buffer \<Rightarrow> face_details \<Rightarrow> string \<Rightarrow> pstate \<Rightarrow> outcome \<times> pstate" where
  "processImage_derivative e img imageBuffer faceData imageHash s =
     (case resize_jpeg e imageBuffer of
        Inl message \<Rightarrow> (Threw message, s)
      | Inr processedImageBuffer \<Rightarrow>
          (case sharp_metadata e processedImageBuffer of
             Inl message \<Rightarrow> (Threw message, s)
           | Inr metadata \<Rightarrow>
               (case saveImageToStorage e processedImageBuffer
                       (processedFilename e (originalName img)) of
                  Inl message \<Rightarrow> (Threw message, s)
                | Inr path \<Rightarrow>
                    (case prisma_update (imageId img)
                            (\<lambda>r. r\<lparr>processedPath := Some path,
                                   processedSize := Some (length processedImageBuffer),
                                   status := PROCESSED,
                                   metaData := Some (no_meta
                                     \<lparr>metaWidth := Some (width metadata),
                                      metaHeight := Some (height metadata),
                                      metaFormat := Some (format metadata),
                                      pHash := Some imageHash,
                                      metaFaceCount :=
                                        Some (case faceCount faceData of None \<Rightarrow> 0 | Some n \<Rightarrow> n)\<rparr>)\<rparr>)
                            s of
                       Inl message \<Rightarrow> (Threw message, s)
                     | Inr s' \<Rightarrow> (Returned, s')))))"

text \<open>Lines 134-156: the hash and the duplicate check.\<close>

definition processImage_duplicates ::
  "env \<Rightarrow> image \<Rightarrow> buffer \<Rightarrow> face_details \<Rightarrow> pstate \<Rightarrow> outcome \<times> pstate" where
  "processImage_duplicates e img imageBuffer faceData s =
     (case generateImageHash e imageBuffer of
        Inl message \<Rightarrow> (Threw message, called GenerateImageHash s)
      | Inr imageHash \<Rightarrow>
          let s1 = called CheckDuplicateImage (called GenerateImageHash s);
              dup = checkDuplicateImage (prisma_findMany e (tbl s1)) imageHash
                      (Some (imageId img)) (originalName img)
          in if isDuplicate dup then
               (case similarImage dup of
                  None \<Rightarrow> (Threw ''Cannot read properties of null (reading 'id')'', s1)
                | Some similar \<Rightarrow>
                    (case prisma_update (imageId img)
                            (set_failed (no_meta
                               \<lparr>rejectionReason := Some (''Duplicate of image: ''
                                    @ imageId similar @ '' ('' @ originalName similar @ '')''),
                                validationErrors := Some [''duplicate_image_detected''],
                                pHash := Some imageHash,
                                similarTo := Some (imageId similar)\<rparr>))
                            s1 of
                       Inl message \<Rightarrow> (Threw message, s1)
                     | Inr s2 \<Rightarrow> (Returned, s2)))
             else processImage_derivative e img imageBuffer faceData imageHash s1)"

text \<open>Lines 110-132: the blur stage.\<close>

definition processImage_blur ::
  "env \<Rightarrow> image \<Rightarrow> buffer \<Rightarrow> face_details \<Rightarrow> pstate \<Rightarrow> outcome \<times> pstate" where
  "processImage_blur e img imageBuffer faceData s =
     (let s1 = called DetectBlurryImage s;
          blurDetection = detectBlurryImage e imageBuffer
      in if isBlurry blurDetection then
           (case prisma_update (imageId img)
                   (set_failed (no_meta
                      \<lparr>rejectionReason :=
                         Some ''Image is too blurry. Please upload a clearer photo.'',
                       validationErrors := Some [''blurry_image_detected'']\<rparr>))
                   s1 of
              Inl message \<Rightarrow> (Threw message, s1)
            | Inr s2 \<Rightarrow> (Returned, s2))
         else processImage_duplicates e img imageBuffer faceData s1)"

text \<open>
  Lines 77-108: the face stage. Its own \<open>try\<close> also encloses the FAILED update, so an
  exception of that update is caught here and the run goes on as if the stage accepted.
\<close>

definition processImage_faces ::
  "env \<Rightarrow> image \<Rightarrow> buffer \<Rightarrow> pstate \<Rightarrow> outcome \<times> pstate" where
  "processImage_faces e img imageBuffer s =
     (let s1 = called ValidateFacesWithOverride s;
          faceValidation = validateFacesWithOverride e imageBuffer
      in if \<not> isValid faceValidation then
           (case prisma_update (imageId img)
                   (set_failed (no_meta
                      \<lparr>rejectionReason := reason faceValidation,
                       validationErrors := Some [''multiple_faces_detected'']\<rparr>))
                   s1 of
              Inl faceError \<Rightarrow>
                processImage_blur e img imageBuffer
                  \<lparr>faceCount = Some 0, override = False, avgStdDev = None,
                   validationFailed = False,
                 detectionFailed = False\<rparr> s1
            | Inr s2 \<Rightarrow> (Returned, s2))
         else processImage_blur e img imageBuffer (details faceValidation) s1)"

text \<open>
  Lines 50-75: the size stage. The data of the FAILED update reads the metadata of the
  buffer again (\<^verbatim>\<open>(await sharp(imageBuffer).metadata()).width\<close>) before the update is
  sent; a Buffer is always truthy.
\<close>

definition processImage_size ::
  "env \<Rightarrow> image \<Rightarrow> buffer \<Rightarrow> pstate \<Rightarrow> outcome \<times> pstate" where
  "processImage_size e img imageBuffer s =
     (let s1 = called ValidateImageSize s;
          sizeValidation = validateImageSize (sharp_metadata e) imageBuffer
      in if \<not> isValid sizeValidation then
           (case sharp_metadata e imageBuffer of
              Inl message \<Rightarrow> (Threw message, s1)
            | Inr metadata \<Rightarrow>
                (case prisma_update (imageId img)
                        (set_failed (no_meta
                           \<lparr>rejectionReason := reason sizeValidation,
                            validationErrors := Some [''size_validation_failed''],
                            metaWidth := Some (width metadata),
                            metaHeight := Some (height metadata),
                            fileSize := Some (length imageBuffer)\<rparr>))
                        s1 of
                   Inl message \<Rightarrow> (Threw message, s1)
                 | Inr s2 \<Rightarrow> (Returned, s2)))
         else processImage_faces e img imageBuffer s1)"

text \<open>Lines 38-48: the body of the \<open>try\<close>, from the PROCESSING update on.\<close>

definition processImage_try :: "env \<Rightarrow> image \<Rightarrow> pstate \<Rightarrow> outcome \<times> pstate" where
  "processImage_try e img s =
     (case prisma_update (imageId img) (\<lambda>r. r\<lparr>status := PROCESSING\<rparr>) s of
        Inl message \<Rightarrow> (Threw message, s)
      | Inr s1 \<Rightarrow>
          (case getImageBuffer e (originalPath img) of
             Inl message \<Rightarrow> (Threw message, s1)
           | Inr imageBuffer \<Rightarrow> processImage_size e img imageBuffer s1))"

text \<open>Lines 198-250: the \<open>catch\<close>.\<close>

definition processImage_catch :: "env \<Rightarrow> string \<Rightarrow> string \<Rightarrow> pstate \<Rightarrow> string + pstate" where
  "processImage_catch e i message s =
     prisma_update i
       (set_failed (no_meta
          \<lparr>rejectionReason := Some (fst (categorizeError message)),
           validationErrors := Some [snd (categorizeError message)],
           technicalError := (if development e then Some message else None)\<rparr>))
       s"

datatype js_error = ApiError nat string | Error string

text \<open>
  \<open>processImage\<close>: the record it returns (what \<open>findUnique\<close> reads last) or the error it
  throws, with the final table and the log.
\<close>

definition processImage :: "env \<Rightarrow> table \<Rightarrow> string \<Rightarrow> (js_error + image option) \<times> pstate" where
  "processImage e t i =
     (let s0 = \<lparr>tbl = t, log = []\<rparr> in
      case findUnique t i of
        None \<Rightarrow> (Inl (ApiError 404 ''Image not found''), s0)
      | Some img \<Rightarrow>
          if status img \<noteq> PENDING then (Inr (Some img), s0)
          else
            (case processImage_try e img s0 of
               (Returned, s) \<Rightarrow> (Inr (findUnique (tbl s) i), s)
             | (Threw message, s) \<Rightarrow>
                 (case processImage_catch e i message s of
                    Inl message' \<Rightarrow> (Inl (Error message'), s)
                  | Inr s' \<Rightarrow> (Inr (findUnique (tbl s') i), s'))))"

subsection \<open>The older pipeline (imageService.js, processImage)\<close>

text \<open>
  \<^verbatim>\<open>imageService.js\<close> keeps an earlier \<open>processImage\<close>, and it is the module the controller
  requires. It has the same guard, the same size branch, the hash and the duplicate check;
  it has no face stage and no blur stage, its PROCESSED update stores no faceCount, and its
  catch block has no "face" row. Reading the original and storing the derivative are
  written out inline there; they are the same collaborators of the environment.
\<close>

definition categorizeError_imageService :: "string \<Rightarrow> string \<times> string" where
  "categorizeError_imageService message =
     (if js_includes message ''duplicate'' then
        (''This image appears to be a duplicate of one you've already uploaded'',
         ''duplicate_image_detected'')
      else if js_includes message ''resolution'' \<or> js_includes message ''dimensions'' then
        (''Image resolution is too low. Please upload a larger image (minimum 800x800px)'',
         ''size_validation_failed'')
      else if js_includes message ''size'' then
        (''Image file size is too small. Please upload a larger image file (minimum 100KB)'',
         ''size_validation_failed'')
      else if js_includes message ''format'' \<or> js_includes message ''unsupported'' then
        (''Unsupported image format. Please use JPEG, PNG, or HEIC formats'',
         ''format_validation_failed'')
      else (''Image processing failed'', ''processing_error''))"

definition imageService_derivative ::
  "env \<Rightarrow> image \<Rightarrow> buffer \<Rightarrow> string \<Rightarrow> pstate \<Rightarrow> outcome \<times> pstate" where
  "imageService_derivative e img imageBuffer imageHash s =
     (case resize_jpeg e imageBuffer of
        Inl message \<Rightarrow> (Threw message, s)
      | Inr processedImageBuffer \<Rightarrow>
          (case sharp_metadata e processedImageBuffer of
             Inl message \<Rightarrow> (Threw message, s)
           | Inr metadata \<Rightarrow>
               (case saveImageToStorage e processedImageBuffer
                       (processedFilename e (originalName img)) of
                  Inl message \<Rightarrow> (Threw message, s)
                | Inr path \<Rightarrow>
                    (case prisma_update (imageId img)
                            (\<lambda>r. r\<lparr>processedPath := Some path,
                                   processedSize := Some (length processedImageBuffer),
                                   status := PROCESSED,
                                   metaData := Some (no_meta
                                     \<lparr>metaWidth := Some (width metadata),
                                      metaHeight := Some (height metadata),
                                      metaFormat := Some (format metadata),
                                      pHash := Some imageHash\<rparr>)\<rparr>)
                            s of
                       Inl message \<Rightarrow> (Threw message, s)
                     | Inr s' \<Rightarrow> (Returned, s')))))"

definition imageService_duplicates ::
  "env \<Rightarrow> image \<Rightarrow> buffer \<Rightarrow> pstate \<Rightarrow> outcome \<times> pstate" where
  "imageService_duplicates e img imageBuffer s =
     (case generateImageHash e imageBuffer of
        Inl message \<Rightarrow> (Threw message, called GenerateImageHash s)
      | Inr imageHash \<Rightarrow>
          let s1 = called CheckDuplicateImage (called GenerateImageHash s);
              dup = checkDuplicateImage (prisma_findMany e (tbl s1)) imageHash
                      (Some (imageId img)) (originalName img)
          in if isDuplicate dup then
               (case similarImage dup of
                  None \<Rightarrow> (Threw ''Cannot read properties of null (reading 'id')'', s1)
                | Some similar \<Rightarrow>
                    (case prisma_update (imageId img)
                            (set_failed (no_meta
                               \<lparr>rejectionReason := Some (''Duplicate of image: ''
                                    @ imageId similar @ '' ('' @ originalName similar @ '')''),
                                validationErrors := Some [''duplicate_image_detected''],
                                pHash := Some imageHash,
                                similarTo := Some (imageId similar)\<rparr>))
                            s1 of
                       Inl message \<Rightarrow> (Threw message, s1)
                     | Inr s2 \<Rightarrow> (Returned, s2)))
             else imageService_derivative e img imageBuffer imageHash s1)"

definition imageService_size ::
  "env \<Rightarrow> image \<Rightarrow> buffer \<Rightarrow> pstate \<Rightarrow> outcome \<times> pstate" where
  "imageService_size e img imageBuffer s =
     (let s1 = called ValidateImageSize s;
          sizeValidation = validateImageSize (sharp_metadata e) imageBuffer
      in if \<not> isValid sizeValidation then
           (case sharp_metadata e imageBuffer of
              Inl message \<Rightarrow> (Threw message, s1)
            | Inr metadata \<Rightarrow>
                (case prisma_update (imageId img)
                        (set_failed (no_meta
                           \<lparr>rejectionReason := reason sizeValidation,
                            validationErrors := Some [''size_validation_failed''],
                            metaWidth := Some (width metadata),
                            metaHeight := Some (height metadata),
                            fileSize := Some (length imageBuffer)\<rparr>))
                        s1 of
                   Inl message \<Rightarrow> (Threw message, s1)
                 | Inr s2 \<Rightarrow> (Returned, s2)))
         else imageService_duplicates e img imageBuffer s1)"

definition imageService_try :: "env \<Rightarrow> image \<Rightarrow> pstate \<Rightarrow> outcome \<times> pstate" where
  "imageService_try e img s =
     (case prisma_update (imageId img) (\<lambda>r. r\<lparr>status := PROCESSING\<rparr>) s of
        Inl message \<Rightarrow> (Threw message, s)
      | Inr s1 \<Rightarrow>
          (case getImageBuffer e (originalPath img) of
             Inl message \<Rightarrow> (Threw message, s1)
           | Inr imageBuffer \<Rightarrow> imageService_size e img imageBuffer s1))"

definition imageService_catch :: "env \<Rightarrow> string \<Rightarrow> string \<Rightarrow> pstate \<Rightarrow> string + pstate" where
  "imageService_catch e i message s =
     prisma_update i
       (set_failed (no_meta
          \<lparr>rejectionReason := Some (fst (categorizeError_imageService message)),
           validationErrors := Some [snd (categorizeError_imageService message)],
           technicalError := (if development e then Some message else None)\<rparr>))
       s"

definition imageService_processImage ::
  "env \<Rightarrow> table \<Rightarrow> string \<Rightarrow> (js_error + image option) \<times> pstate" where
  "imageService_processImage e t i =
     (let s0 = \<lparr>tbl = t, log = []\<rparr> in
      case findUnique t i of
        None \<Rightarrow> (Inl (ApiError 404 ''Image not found''), s0)
      | Some img \<Rightarrow>
          if status img \<noteq> PENDING then (Inr (Some img), s0)
          else
            (case imageService_try e img s0 of
               (Returned, s) \<Rightarrow> (Inr (findUnique (tbl s) i), s)
             | (Threw message, s) \<Rightarrow>
                 (case imageService_catch e i message s of
                    Inl message' \<Rightarrow> (Inl (Error message'), s)
                  | Inr s' \<Rightarrow> (Inr (findUnique (tbl s') i), s'))))"

subsection \<open>The manual trigger (imageController.processImage, POST /api/images/:id/process)\<close>

record response =
  statusCode :: nat
  message :: string

text \<open>
  An error goes to \<open>next\<close>, and the error handler answers with
  \<^verbatim>\<open>err.statusCode || 500\<close> and \<^verbatim>\<open>err.message || "Server Error"\<close>.
\<close>

definition errorHandler :: "js_error \<Rightarrow> response" where
  "errorHandler err =
     (case err of
        ApiError code msg \<Rightarrow>
          \<lparr>statusCode = (if code = 0 then 500 else code),
           message = (if msg = [] then ''Server Error'' else msg)\<rparr>
      | Error msg \<Rightarrow>
          \<lparr>statusCode = 500, message = (if msg = [] then ''Server Error'' else msg)\<rparr>)"

text \<open>
  The handler, over the \<open>processImage\<close> of the module it requires
  (\<^verbatim>\<open>require("../services/imageService")\<close>).
\<close>

definition controller_processImage :: "env \<Rightarrow> table \<Rightarrow> string \<Rightarrow> response \<times> pstate" where
  "controller_processImage e t i =
     (case findUnique t i of
        None \<Rightarrow> (errorHandler (ApiError 404 ''Image not found''), \<lparr>tbl = t, log = []\<rparr>)
      | Some img \<Rightarrow>
          if status img = PROCESSED then
            (errorHandler (ApiError 400 ''Image already processed''), \<lparr>tbl = t, log = []\<rparr>)
          else
            (case imageService_processImage e t i of
               (Inl err, s) \<Rightarrow> (errorHandler err, s)
             | (Inr r, s) \<Rightarrow>
                 (\<lparr>statusCode = 202, message = ''Image processing started''\<rparr>, s)))"

subsection \<open>Reading a run\<close>

text \<open>
  The analysers a log calls, in order, and the order the pipeline is meant to follow.
\<close>

fun calls :: "event list \<Rightarrow> analyzer list" where
  "calls [] = []"
| "calls (Called a # es) = a # calls es"
| "calls (Updated st # es) = calls es"


text \<open>
  \<open>ends_failed res i code why\<close>: the run returned the row \<open>i\<close> as the table now holds
  it, with status FAILED, \<open>validationErrors = [code]\<close> and \<open>rejectionReason = why\<close>.
\<close>

definition ends_failed ::
  "(js_error + image option) \<times> pstate \<Rightarrow> string \<Rightarrow> string \<Rightarrow> string option \<Rightarrow> bool" where
  "ends_failed res i code why =
     (case fst res of
        Inr (Some r) \<Rightarrow>
          findUnique (tbl (snd res)) i = Some r \<and> status r = FAILED \<and>
          (case metaData r of
             Some m \<Rightarrow> validationErrors m = Some [code] \<and> rejectionReason m = why
           | None \<Rightarrow> False)
      | _ \<Rightarrow> False)"

text \<open>
  The table once the run has written PROCESSING on the row \<open>i\<close>.
\<close>

definition processing :: "string \<Rightarrow> table \<Rightarrow> table" where
  "processing i t = map (\<lambda>x. if imageId x = i then x\<lparr>status := PROCESSING\<rparr> else x) t"

subsection \<open>The packing the specification describes\<close>


subsection \<open>Example data\<close>

text \<open>
  A table with a PROCESSED row that has no metaData, a PROCESSED row with a stored hash, a
  FAILED duplicate and a PENDING upload; an environment in which every stage accepts (a
  900x900 image of 150000 bytes), and variants of it: images of other dimensions, a
  truncated file whose header decodes but whose pixels do not, an empty file, a file that
  is no image, a blob store that is down. The digest of \<open>example_env\<close> is a fixed
  stand-in for MD5.
\<close>

definition legacy_row :: image where
  "legacy_row =
     \<lparr>imageId = ''img-1'', originalName = ''Portrait.JPG'', metaData = None,
      originalSize = 150000, originalPath = ''uploads/original/a.jpg'',
      processedPath = Some ''uploads/processed/a.jpg'', processedSize = Some 90000,
      fileType = ''jpg'', status = PROCESSED\<rparr>"

definition hashed_row :: image where
  "hashed_row =
     \<lparr>imageId = ''img-2'', originalName = ''beach.png'',
      metaData = Some (no_meta\<lparr>pHash := Some ''00000000000000000000000000000000''\<rparr>),
      originalSize = 250000, originalPath = ''uploads/original/b.png'',
      processedPath = Some ''uploads/processed/b.png'', processedSize = Some 120000,
      fileType = ''png'', status = PROCESSED\<rparr>"

definition failed_row :: image where
  "failed_row =
     \<lparr>imageId = ''img-3'', originalName = ''beach-copy.png'',
      metaData = Some (no_meta\<lparr>rejectionReason := Some ''Duplicate of image: img-2 (beach.png)'',
        validationErrors := Some [''duplicate_image_detected''],
        pHash := Some ''00000000000000000000000000000000'', similarTo := Some ''img-2''\<rparr>),
      originalSize = 250000, originalPath = ''uploads/original/c.png'',
      processedPath = None, processedSize = None, fileType = ''png'', status = FAILED\<rparr>"

definition pending_row :: image where
  "pending_row =
     \<lparr>imageId = ''img-4'', originalName = ''new.jpg'', metaData = None,
      originalSize = 150000, originalPath = ''uploads/original/d.jpg'',
      processedPath = None, processedSize = None, fileType = ''jpg'', status = PENDING\<rparr>"

definition example_table :: table where
  "example_table = [legacy_row, hashed_row, failed_row, pending_row]"


definition example_env :: env where
  "example_env =
     \<lparr>getImageBuffer = (\<lambda>path. Inr (replicate 150000 0)),
      sharp_metadata = (\<lambda>b. Inr \<lparr>width = 900, height = 900, format = ''jpeg''\<rparr>),
      sharp_stats = (\<lambda>b. Inr [70, 65, 60]),
      detectFaces = (\<lambda>b. \<lparr>detectedFaces = 1, regions = 3,
         hasMultipleFaceIndicators = False\<rparr>),
      checkForPortraitWithSolidBackground = (\<lambda>b. False),
      blur_measurements = (\<lambda>b. Inr \<lparr>isBlurryBySharpening = False,
         isBlurryByBlockAnalysis = False, isBlurryByEdgeDistribution = False,
         horizGradientSum = 9000000, vertGradientSum = 8000000,
         imageWidth = 900, imageHeight = 900\<rparr>),
      grayscale_stdev = (\<lambda>b. Inr 40),
      resize32_grayscale_raw = (\<lambda>b. Inr (replicate 512 200 @ replicate 512 10)),
      md5 = (\<lambda>b. 0xd41d8cd98f00b204e9800998ecf8427e),
      resize_jpeg = (\<lambda>b. Inr (replicate 90000 0)),
      saveImageToStorage = (\<lambda>b name. Inr (''uploads/processed/'' @ name)),
      processedFilename = (\<lambda>name. ''photo-processed-1700000000000.jpg''),
      findMany_error = None,
      development = False\<rparr>"

definition truncated_group_photo_env :: env where
  "truncated_group_photo_env =
     example_env
       \<lparr>sharp_metadata := (\<lambda>b. Inr \<lparr>width = 6000, height = 3000, format = ''jpeg''\<rparr>),
        sharp_stats := (\<lambda>b. Inl ''VipsJpeg: Premature end of input file'')\<rparr>"




definition blur_failing_env :: env where
  "blur_failing_env =
     example_env
       \<lparr>sharp_stats := (\<lambda>b. Inl ''VipsJpeg: Premature end of input file''),
        blur_measurements := (\<lambda>b. Inl ''VipsJpeg: Premature end of input file''),
        grayscale_stdev := (\<lambda>b. Inl ''VipsJpeg: Premature end of input file'')\<rparr>"

definition empty_buffer_env :: env where
  "empty_buffer_env =
     example_env
       \<lparr>getImageBuffer := (\<lambda>path. Inr []),
        sharp_metadata := (\<lambda>b. Inl ''Input Buffer is empty'')\<rparr>"

definition unsupported_format_env :: env where
  "unsupported_format_env =
     example_env
       \<lparr>sharp_metadata := (\<lambda>b. Inl ''Input buffer contains unsupported image format'')\<rparr>"

definition storage_down_env :: env where
  "storage_down_env =
     example_env
       \<lparr>getImageBuffer := (\<lambda>path. Inl ''S3 bucket name not configured''),
        development := True\<rparr>"

section \<open>Properties\<close>

lemma string_of_nat_small: "n < 10 \<Longrightarrow> string_of_nat n = [digit_char n]"
  by (simp add: string_of_nat.simps)

lemma string_of_nat_big:
  "10 \<le> n \<Longrightarrow> string_of_nat n = string_of_nat (n div 10) @ [digit_char (n mod 10)]"
  by (subst string_of_nat.simps) simp

lemma digit_char_simps:
  "digit_char 0 = CHR ''0''" "digit_char (Suc 0) = CHR ''1''" "digit_char 1 = CHR ''1''"
  "digit_char 2 = CHR ''2''" "digit_char 3 = CHR ''3''" "digit_char 4 = CHR ''4''"
  "digit_char 5 = CHR ''5''" "digit_char 6 = CHR ''6''" "digit_char 7 = CHR ''7''"
  "digit_char 8 = CHR ''8''" "digit_char 9 = CHR ''9''"
  by (simp_all add: digit_char_def)

lemmas show_simps = string_of_nat_small string_of_nat_big digit_char_simps

lemma minimums_as_text:
  "string_of_nat MIN_WIDTH = ''800''" "string_of_nat MIN_HEIGHT = ''800''"
  "string_of_nat (MIN_SIZE_IN_BYTES div 1024) = ''100''"
  by (simp_all add: MIN_WIDTH_def MIN_HEIGHT_def MIN_SIZE_IN_BYTES_def show_simps)


lemma js_includes_iff_sublist: "js_includes s t \<longleftrightarrow> sublist t s"
  by (induction s) (auto simp: sublist_Cons_right)

subsection \<open>The record store\<close>

lemma findUnique_imageId: "findUnique t i = Some r \<Longrightarrow> imageId r = i"
  by (auto simp: findUnique_def find_Some_iff)

lemma findUnique_map_update:
  "findUnique t i = Some r \<Longrightarrow> imageId (f r) = i \<Longrightarrow>
   findUnique (map (\<lambda>x. if imageId x = i then f x else x) t) i = Some (f r)"
  unfolding findUnique_def
  by (induction t) (auto split: if_splits)

lemma prisma_update_found:
  "findUnique (tbl s) i = Some r \<Longrightarrow>
   prisma_update i f s =
     Inr \<lparr>tbl = map (\<lambda>x. if imageId x = i then f x else x) (tbl s),
          log = log s @ [Updated (status (f r))]\<rparr>"
  by (simp add: prisma_update_def)

lemma imageId_set_failed [simp]: "imageId (set_failed m r) = imageId r"
  by (simp add: set_failed_def)

lemma status_set_failed [simp]: "status (set_failed m r) = FAILED"
  by (simp add: set_failed_def)

lemma metaData_set_failed [simp]: "metaData (set_failed m r) = Some m"
  by (simp add: set_failed_def)

subsection \<open>The size stage\<close>



text \<open>799x800 is rejected, whatever the size of the file.\<close>

lemma validateImageSize_799x800:
  "validateImageSize (\<lambda>b. Inr \<lparr>width = 799, height = 800, format = ''jpeg''\<rparr>) imageBuffer =
     \<lparr>isValid = False,
      reason = Some ''Image resolution too low. Minimum required: 800x800px, got: 799x800px''\<rparr>"
  by (simp add: validateImageSize_def MIN_WIDTH_def MIN_HEIGHT_def show_simps)

text \<open>900x900 at 40 KB is rejected, and the reason mentions 100KB and 40.0KB.\<close>

lemma validateImageSize_40KB:
  "validateImageSize (\<lambda>b. Inr \<lparr>width = 900, height = 900, format = ''jpeg''\<rparr>)
     (replicate 40960 0) =
     \<lparr>isValid = False,
      reason = Some ''Image file size too small. Minimum required: 100KB, got: 40.0KB''\<rparr>"
  by (simp add: validateImageSize_def MIN_WIDTH_def MIN_HEIGHT_def MIN_SIZE_IN_BYTES_def
      toFixed1_KB_def tenths_of_KB_def show_simps)

subsection \<open>The example data\<close>

lemmas rows_defs = legacy_row_def hashed_row_def failed_row_def pending_row_def example_table_def

lemmas envs_defs = example_env_def blur_failing_env_def empty_buffer_env_def
  unsupported_format_env_def storage_down_env_def truncated_group_photo_env_def


lemma example_table_pending:
  "findUnique example_table ''img-4'' = Some pending_row" "status pending_row = PENDING"
  "distinct (map imageId example_table)"
  by (simp_all add: rows_defs findUnique_def)

subsection \<open>The candidate query and the duplicate check\<close>

lemma hash_scan_find: "hash_scan hash cs = find (similar_hash hash) cs"
  by (induction cs) auto

lemma hash_scan_stored: "hash_scan hash cs = Some c \<Longrightarrow> stored_hash c \<noteq> None"
  by (auto simp: hash_scan_find find_Some_iff similar_hash_def split: option.splits)

text \<open>
  C3, as stated, fails: the query has no condition on \<open>metaData.pHash\<close>. A PROCESSED row
  without metaData is among the candidates, and its file name alone makes it the reported
  duplicate.
\<close>

theorem findProcessedImages_without_hash:
  "findProcessedImages [legacy_row] None = [candidate_of legacy_row]
   \<and> stored_hash (candidate_of legacy_row) = None
   \<and> checkDuplicateImage (Inr [legacy_row]) ''d41d8cd98f00b204e9800998ecf8427e'' None ''portrait.jpg''
       = \<lparr>isDuplicate = True, similarImage = Some (candidate_of legacy_row)\<rparr>"
  by (simp add: findProcessedImages_def legacy_row_def candidate_of_def stored_hash_def
      checkDuplicateImage_def toLowerCase_def toLowerCase_char_def)

text \<open>
  C3, as amended. The candidate query returns exactly the rows whose status is PROCESSED
  and whose id is not the excluded one (a missing or empty \<open>excludeId\<close> excludes nothing),
  each projected to id, originalName and metaData, whether or not a pHash is stored. Only
  the hash comparison skips the candidates without a stored pHash: the candidate it
  reports has one.
\<close>

theorem findProcessedImages_exact:
  "set (findProcessedImages t excludeId) =
     candidate_of ` {r \<in> set t. status r = PROCESSED \<and>
                      (case excludeId of None \<Rightarrow> True | Some e \<Rightarrow> e = [] \<or> imageId r \<noteq> e)}
   \<and> (\<forall>c. hash_scan hash (findProcessedImages t excludeId) = Some c \<longrightarrow> stored_hash c \<noteq> None)"
  by (auto simp: findProcessedImages_def dest: hash_scan_stored)

theorem findProcessedImages_exact_witness:
  "set (findProcessedImages example_table (Some ''img-4'')) =
     {candidate_of legacy_row, candidate_of hashed_row}
   \<and> hash_scan ''00000000000000000000000000000007''
        (findProcessedImages example_table (Some ''img-4'')) = Some (candidate_of hashed_row)
   \<and> stored_hash (candidate_of hashed_row) \<noteq> None"
proof -
  have cs: "findProcessedImages example_table (Some ''img-4'') =
      [candidate_of legacy_row, candidate_of hashed_row]"
    by (simp add: findProcessedImages_def rows_defs)
  have l: "stored_hash (candidate_of legacy_row) = None"
    by (simp add: stored_hash_def candidate_of_def legacy_row_def)
  have h: "stored_hash (candidate_of hashed_row) = Some ''00000000000000000000000000000000''"
    by (simp add: stored_hash_def candidate_of_def hashed_row_def no_meta_def)
  have d: "hamming_distance (hexToBinary ''00000000000000000000000000000007'')
      (hexToBinary ''00000000000000000000000000000000'') = 3"
    by (simp add: hexToBinary_def parseInt16_def toString2_pad4_def bit_char_def)
  have scan: "hash_scan ''00000000000000000000000000000007''
      (findProcessedImages example_table (Some ''img-4'')) = Some (candidate_of hashed_row)"
    by (simp add: cs similar_hash_def l h d SIMILARITY_THRESHOLD_def)
  from findProcessedImages_exact
    [of example_table "Some ''img-4''" "''00000000000000000000000000000007''"] cs scan
  show ?thesis
    by auto
qed

text \<open>
  Each character of a hash expands to four characters, and on strings of equal length the
  loop counts the positions where they differ.
\<close>

lemma length_hexToBinary: "length (hexToBinary hex) = 4 * length hex"
  by (induction hex) (auto simp: hexToBinary_def toString2_pad4_def split: option.splits)

lemma Collect_less_Suc_split:
  "{i. i < Suc n \<and> P i} = (if P 0 then {0} else {}) \<union> Suc ` {i. i < n \<and> P (Suc i)}"
  by (auto simp: image_iff less_Suc_eq_0_disj)

lemma hamming_distance_count:
  "length a = length b \<Longrightarrow> hamming_distance a b = card {i. i < length a \<and> a ! i \<noteq> b ! i}"
proof (induction a b rule: hamming_distance.induct)
  case (1 a as b bs)
  let ?S = "{i. i < length as \<and> as ! i \<noteq> bs ! i}"
  have fin: "finite ?S" by simp
  have split: "{i. i < length (a # as) \<and> (a # as) ! i \<noteq> (b # bs) ! i}
      = (if a \<noteq> b then {0} else {}) \<union> Suc ` ?S"
    using Collect_less_Suc_split [of "length as" "\<lambda>i. (a # as) ! i \<noteq> (b # bs) ! i"]
    by simp
  have "card ((if a \<noteq> b then {0} else {}) \<union> Suc ` ?S)
      = (if a \<noteq> b then 1 else 0) + card (Suc ` ?S)"
    by (subst card_Un_disjoint) (auto simp: fin)
  moreover have "card (Suc ` ?S) = card ?S"
    by (simp add: card_image)
  ultimately show ?case
    using 1 split by simp
qed simp_all



subsection \<open>The perceptual hash\<close>




















subsection \<open>The guarded face stage\<close>

lemma validateFaceCount_rejects_decoded:
  "\<not> isValid (validateFaceCount e imageBuffer) \<Longrightarrow> \<exists>md. sharp_metadata e imageBuffer = Inr md"
  by (auto simp: validateFaceCount_def split: sum.splits)




lemma validateFacesWithOverride_accepted:
  "isValid (validateFaceCount e imageBuffer) \<Longrightarrow>
   validateFacesWithOverride e imageBuffer = validateFaceCount e imageBuffer"
  by (simp add: validateFacesWithOverride_def)

subsection \<open>The blur stage\<close>

text \<open>
  C10. When the four-method analysis throws and the fallback throws too,
  \<open>detectBlurryImage\<close> returns isBlurry = true with the reason "Image analysis failed": it
  fails closed. The face stage accepts when reading the metadata or the statistics throws,
  and the duplicate check reports no duplicate when its query throws: they fail open.
\<close>

theorem detectBlurryImage_fails_closed:
  "(blur_measurements e imageBuffer = Inl error \<and> grayscale_stdev e imageBuffer = Inl innerError \<longrightarrow>
      detectBlurryImage e imageBuffer =
        \<lparr>isBlurry = True, blurReason = Some ''Image analysis failed'', blurryVotes = None\<rparr>)
   \<and> (sharp_metadata e imageBuffer = Inl faceError \<or> sharp_stats e imageBuffer = Inl faceError \<longrightarrow>
        isValid (validateFacesWithOverride e imageBuffer))
   \<and> isDuplicate (checkDuplicateImage (Inl queryError) hash excludeId originalFileName) = False"
proof -
  have face: "isValid (validateFacesWithOverride e imageBuffer)"
    if "sharp_metadata e imageBuffer = Inl faceError \<or> sharp_stats e imageBuffer = Inl faceError"
  proof (cases "isValid (validateFaceCount e imageBuffer)")
    case True
    then show ?thesis
      by (simp add: validateFacesWithOverride_def)
  next
    case False
    then obtain md where "sharp_metadata e imageBuffer = Inr md"
      using validateFaceCount_rejects_decoded by blast
    with that False show ?thesis
      by (auto simp: validateFacesWithOverride_def Let_def override_accept_def fail_open_accept_def)
  qed
  show ?thesis
    using face by (auto simp: detectBlurryImage_def checkDuplicateImage_def)
qed

theorem detectBlurryImage_fails_closed_witness:
  "blur_measurements blur_failing_env [] = Inl ''VipsJpeg: Premature end of input file''
   \<and> grayscale_stdev blur_failing_env [] = Inl ''VipsJpeg: Premature end of input file''
   \<and> detectBlurryImage blur_failing_env [] =
        \<lparr>isBlurry = True, blurReason = Some ''Image analysis failed'', blurryVotes = None\<rparr>
   \<and> sharp_stats truncated_group_photo_env [] = Inl ''VipsJpeg: Premature end of input file''
   \<and> isValid (validateFacesWithOverride truncated_group_photo_env [])"
proof -
  have b: "blur_measurements blur_failing_env [] = Inl ''VipsJpeg: Premature end of input file''"
    "grayscale_stdev blur_failing_env [] = Inl ''VipsJpeg: Premature end of input file''"
    by (simp_all add: envs_defs)
  have f: "sharp_stats truncated_group_photo_env [] = Inl ''VipsJpeg: Premature end of input file''"
    by (simp add: envs_defs)
  from detectBlurryImage_fails_closed
    [of blur_failing_env "[]" "''VipsJpeg: Premature end of input file''"
        "''VipsJpeg: Premature end of input file''"]
    detectBlurryImage_fails_closed
    [of truncated_group_photo_env "[]" _ _ "''VipsJpeg: Premature end of input file''"]
  show ?thesis
    using b f by simp
qed

subsection \<open>The pipeline: what every stage keeps\<close>

lemma calls_append [simp]: "calls (xs @ ys) = calls xs @ calls ys"
  by (induction xs rule: calls.induct) simp_all

lemma tbl_called [simp]: "tbl (called a s) = tbl s"
  by (simp add: called_def)

lemma log_called [simp]: "log (called a s) = log s @ [Called a]"
  by (simp add: called_def)

lemma prisma_update_Inr:
  "prisma_update i f s = Inr s' \<Longrightarrow>
   \<exists>r. findUnique (tbl s) i = Some r \<and>
       tbl s' = map (\<lambda>x. if imageId x = i then f x else x) (tbl s) \<and>
       log s' = log s @ [Updated (status (f r))]"
  by (auto simp: prisma_update_def split: option.splits)

lemma prisma_update_ids:
  "prisma_update i f s = Inr s' \<Longrightarrow> (\<And>r. imageId (f r) = imageId r) \<Longrightarrow>
   map imageId (tbl s') = map imageId (tbl s)"
  by (auto dest!: prisma_update_Inr)

lemma prisma_update_calls:
  "prisma_update i f s = Inr s' \<Longrightarrow> calls (log s') = calls (log s)"
  by (auto dest!: prisma_update_Inr)

lemma findUnique_None: "findUnique t i = None \<longleftrightarrow> i \<notin> set (map imageId t)"
  by (auto simp: findUnique_def find_None_iff)

text \<open>
  Every stage keeps the ids of the table.
\<close>

lemma derivative_ids:
  "map imageId (tbl (snd (processImage_derivative e img b fd h s))) = map imageId (tbl s)"
  by (auto simp: processImage_derivative_def split: sum.splits dest!: prisma_update_ids)

lemma duplicates_ids:
  "map imageId (tbl (snd (processImage_duplicates e img b fd s))) = map imageId (tbl s)"
  by (auto simp: processImage_duplicates_def Let_def derivative_ids
      split: sum.splits option.splits dest!: prisma_update_ids)

lemma blur_ids:
  "map imageId (tbl (snd (processImage_blur e img b fd s))) = map imageId (tbl s)"
  by (auto simp: processImage_blur_def Let_def duplicates_ids
      split: sum.splits dest!: prisma_update_ids)

lemma faces_ids:
  "map imageId (tbl (snd (processImage_faces e img b s))) = map imageId (tbl s)"
  by (auto simp: processImage_faces_def Let_def blur_ids
      split: sum.splits dest!: prisma_update_ids)

lemma size_ids:
  "map imageId (tbl (snd (processImage_size e img b s))) = map imageId (tbl s)"
  by (auto simp: processImage_size_def Let_def faces_ids
      split: sum.splits dest!: prisma_update_ids)

lemma try_ids:
  "map imageId (tbl (snd (processImage_try e img s))) = map imageId (tbl s)"
  by (auto simp: processImage_try_def size_ids split: sum.splits dest!: prisma_update_ids)








subsection \<open>The pipeline: one stage at a time\<close>

text \<open>
  Writing FAILED on a row that is there.
\<close>

lemma reject_step:
  assumes "findUnique (tbl s) i = Some r"
  shows "\<exists>s'. prisma_update i (set_failed m) s = Inr s' \<and> log s' = log s @ [Updated FAILED]
           \<and> findUnique (tbl s') i = Some (set_failed m r)"
proof -
  have "imageId r = i"
    using assms by (rule findUnique_imageId)
  then have "findUnique (map (\<lambda>x. if imageId x = i then set_failed m x else x) (tbl s)) i
      = Some (set_failed m r)"
    using assms by (intro findUnique_map_update) simp_all
  with assms show ?thesis
    by (simp add: prisma_update_def)
qed


lemma size_undecodable:
  assumes "sharp_metadata e b = Inl msg"
  shows "processImage_size e img b s = (Threw msg, called ValidateImageSize s)"
  using assms by (simp add: processImage_size_def validateImageSize_def Let_def)








lemma try_loaded:
  assumes "findUnique t i = Some img" and "getImageBuffer e (originalPath img) = Inr b"
  shows "processImage_try e img \<lparr>tbl = t, log = []\<rparr> =
           processImage_size e img b \<lparr>tbl = processing i t, log = [Updated PROCESSING]\<rparr>"
  using assms findUnique_imageId [OF assms(1)]
  by (simp add: processImage_try_def prisma_update_def processing_def)




text \<open>
  The catch: the row is there, so the FAILED update goes through.
\<close>

lemma processImage_threw:
  assumes "findUnique t i = Some img" and "status img = PENDING"
    and "processImage_try e img \<lparr>tbl = t, log = []\<rparr> = (Threw msg, s)"
  shows "\<exists>s' r m. processImage e t i = (Inr (findUnique (tbl s') i), s')
           \<and> log s' = log s @ [Updated FAILED]
           \<and> findUnique (tbl s') i = Some (set_failed m r)
           \<and> validationErrors m = Some [snd (categorizeError msg)]
           \<and> rejectionReason m = Some (fst (categorizeError msg))
           \<and> technicalError m = (if development e then Some msg else None)"
proof -
  have "map imageId (tbl s) = map imageId t"
    using try_ids [of e img "\<lparr>tbl = t, log = []\<rparr>"] assms(3) by simp
  moreover have "i \<in> set (map imageId t)"
    using assms(1) findUnique_None [of t i] by auto
  ultimately have "findUnique (tbl s) i \<noteq> None"
    using findUnique_None [of "tbl s" i] by auto
  then obtain r where r: "findUnique (tbl s) i = Some r"
    by blast
  let ?m = "no_meta\<lparr>rejectionReason := Some (fst (categorizeError msg)),
      validationErrors := Some [snd (categorizeError msg)],
      technicalError := (if development e then Some msg else None)\<rparr>"
  from reject_step [OF r, of ?m] obtain s' where s':
    "prisma_update i (set_failed ?m) s = Inr s'" "log s' = log s @ [Updated FAILED]"
    "findUnique (tbl s') i = Some (set_failed ?m r)"
    by blast
  have "processImage e t i = (Inr (findUnique (tbl s') i), s')"
    using assms s'(1) by (simp add: processImage_def processImage_catch_def)
  with s' show ?thesis
    by (intro exI [of _ s'] exI [of _ r] exI [of _ ?m]) simp
qed




text \<open>
  An undecodable buffer: the size stage rejects, but the data of its FAILED update reads
  the metadata again, which throws again, and the catch block writes the code it picks
  from the message of that exception.
\<close>

lemma processImage_undecodable:
  assumes "findUnique t i = Some img" and "status img = PENDING"
    and "getImageBuffer e (originalPath img) = Inr b" and "sharp_metadata e b = Inl msg"
  shows "log (snd (processImage e t i)) =
           [Updated PROCESSING, Called ValidateImageSize, Updated FAILED]
       \<and> ends_failed (processImage e t i) i (snd (categorizeError msg))
            (Some (fst (categorizeError msg)))
       \<and> validateImageSize (sharp_metadata e) b =
            \<lparr>isValid = False, reason = Some (''Failed to validate image: '' @ msg)\<rparr>"
proof -
  let ?s1 = "\<lparr>tbl = processing i t, log = [Updated PROCESSING]\<rparr>"
  have "processImage_try e img \<lparr>tbl = t, log = []\<rparr> = (Threw msg, called ValidateImageSize ?s1)"
    using try_loaded [OF assms(1,3)] size_undecodable [OF assms(4)] by simp
  from processImage_threw [OF assms(1,2) this] obtain s' r m where
    "processImage e t i = (Inr (findUnique (tbl s') i), s')"
    "log s' = log (called ValidateImageSize ?s1) @ [Updated FAILED]"
    "findUnique (tbl s') i = Some (set_failed m r)"
    "validationErrors m = Some [snd (categorizeError msg)]"
    "rejectionReason m = Some (fst (categorizeError msg))"
    by blast
  then show ?thesis
    using assms(4) by (simp add: ends_failed_def validateImageSize_def)
qed

subsection \<open>The size stage in the pipeline\<close>





subsection \<open>The pipeline: order of the stages and first rejection\<close>




text \<open>
  C9. The first half holds in general (\<open>processImage_undecodable\<close>): on a buffer whose
  metadata cannot be decoded \<open>validateImageSize\<close> does not throw and returns the reason
  "Failed to validate image: ...". The second half does not: with the message sharp gives
  for such a buffer the upload ends FAILED with \<open>format_validation_failed\<close>, not with
  \<open>size_validation_failed\<close>.
\<close>

theorem processImage_unsupported_format:
  "validateImageSize (sharp_metadata unsupported_format_env) (replicate 150000 0) =
     \<lparr>isValid = False,
      reason = Some ''Failed to validate image: Input buffer contains unsupported image format''\<rparr>
   \<and> ends_failed (processImage unsupported_format_env example_table ''img-4'') ''img-4''
        ''format_validation_failed''
        (Some ''Unsupported image format. Please use JPEG, PNG, or HEIC formats'')"
proof -
  have loaded: "getImageBuffer unsupported_format_env (originalPath pending_row)
      = Inr (replicate 150000 0)"
    by (simp add: envs_defs)
  have undecodable: "sharp_metadata unsupported_format_env (replicate 150000 0)
      = Inl ''Input buffer contains unsupported image format''"
    by (simp add: envs_defs)
  have cat: "categorizeError ''Input buffer contains unsupported image format'' =
      (''Unsupported image format. Please use JPEG, PNG, or HEIC formats'',
       ''format_validation_failed'')"
    by (simp add: categorizeError_def)
  from processImage_undecodable [OF example_table_pending(1,2) loaded undecodable]
  show ?thesis
    by (simp add: cat)
qed

subsection \<open>The pipeline: the catch block\<close>



lemma categorizeError_hash_failure:
  "categorizeError ''Failed to generate image hash: Input buffer contains unsupported image format''
     = (''Unsupported image format. Please use JPEG, PNG, or HEIC formats'',
        ''format_validation_failed'')"
  by (simp add: categorizeError_def)

subsection \<open>The older pipeline\<close>

lemma imageService_processImage_not_PENDING:
  "findUnique t i = Some img \<Longrightarrow> status img \<noteq> PENDING \<Longrightarrow>
   imageService_processImage e t i = (Inr (Some img), \<lparr>tbl = t, log = []\<rparr>)"
  by (simp add: imageService_processImage_def)

lemma imageService_derivative_calls:
  "calls (log (snd (imageService_derivative e img b h s))) = calls (log s)"
  by (auto simp: imageService_derivative_def split: sum.splits dest!: prisma_update_calls)

lemma imageService_duplicates_calls:
  "\<exists>suf. calls (log (snd (imageService_duplicates e img b s))) = calls (log s) @ suf
         \<and> prefix suf [GenerateImageHash, CheckDuplicateImage]"
  by (auto simp: imageService_duplicates_def Let_def imageService_derivative_calls
      split: sum.splits option.splits dest!: prisma_update_calls)

lemma imageService_size_calls:
  "\<exists>suf. calls (log (snd (imageService_size e img b s))) = calls (log s) @ suf
         \<and> prefix suf [ValidateImageSize, GenerateImageHash, CheckDuplicateImage]"
proof -
  obtain suf where suf:
    "calls (log (snd (imageService_duplicates e img b (called ValidateImageSize s))))
       = calls (log (called ValidateImageSize s)) @ suf"
    "prefix suf [GenerateImageHash, CheckDuplicateImage]"
    using imageService_duplicates_calls by blast
  show ?thesis
    using suf
    by (auto simp: imageService_size_def Let_def split: sum.splits dest!: prisma_update_calls)
qed

lemma imageService_try_calls:
  "log s = [] \<Longrightarrow>
   prefix (calls (log (snd (imageService_try e img s))))
     [ValidateImageSize, GenerateImageHash, CheckDuplicateImage]"
proof -
  assume empty: "log s = []"
  have "prefix (calls (log (snd (imageService_size e img b s1))))
      [ValidateImageSize, GenerateImageHash, CheckDuplicateImage]"
    if "calls (log s1) = []" for b s1
    using imageService_size_calls [of e img b s1] that by auto
  then show ?thesis
    using empty
    by (auto simp: imageService_try_def split: sum.splits dest!: prisma_update_calls)
qed

text \<open>
  The older pipeline never calls the face stage or the blur stage.
\<close>

lemma imageService_processImage_calls:
  "prefix (calls (log (snd (imageService_processImage e t i))))
     [ValidateImageSize, GenerateImageHash, CheckDuplicateImage]"
proof (cases "findUnique t i")
  case None
  then show ?thesis
    by (simp add: imageService_processImage_def)
next
  case (Some img)
  show ?thesis
  proof (cases "status img = PENDING")
    case False
    with Some show ?thesis
      by (simp add: imageService_processImage_def)
  next
    case True
    obtain out s where run: "imageService_try e img \<lparr>tbl = t, log = []\<rparr> = (out, s)"
      by (cases "imageService_try e img \<lparr>tbl = t, log = []\<rparr>")
    have s: "prefix (calls (log s)) [ValidateImageSize, GenerateImageHash, CheckDuplicateImage]"
      using imageService_try_calls [of "\<lparr>tbl = t, log = []\<rparr>" e img] run by simp
    show ?thesis
    proof (cases out)
      case Returned
      with Some True run s show ?thesis
        by (simp add: imageService_processImage_def)
    next
      case (Threw msg)
      show ?thesis
      proof (cases "imageService_catch e i msg s")
        case (Inl msg')
        with Some True run s Threw show ?thesis
          by (simp add: imageService_processImage_def)
      next
        case (Inr s')
        then have "calls (log s') = calls (log s)"
          unfolding imageService_catch_def by (rule prisma_update_calls)
        with Some True run s Threw Inr show ?thesis
          by (simp add: imageService_processImage_def)
      qed
    qed
  qed
qed

text \<open>
  The two catch blocks agree except on messages that only mention a face.
\<close>

lemma categorizeError_imageService_eq:
  "categorizeError_imageService msg =
     (if categorizeError msg =
           (''Multiple faces detected in image. Please upload a photo with at most one face.'',
            ''multiple_faces_detected'')
      then (''Image processing failed'', ''processing_error'') else categorizeError msg)"
  by (simp add: categorizeError_def categorizeError_imageService_def)

subsection \<open>The manual trigger\<close>

lemma processImage_not_PENDING:
  "findUnique t i = Some img \<Longrightarrow> status img \<noteq> PENDING \<Longrightarrow>
   processImage e t i = (Inr (Some img), \<lparr>tbl = t, log = []\<rparr>)"
  by (simp add: processImage_def)

lemma controller_processImage_PROCESSED:
  "findUnique t i = Some img \<Longrightarrow> status img = PROCESSED \<Longrightarrow>
   controller_processImage e t i =
     (\<lparr>statusCode = 400, message = ''Image already processed''\<rparr>, \<lparr>tbl = t, log = []\<rparr>)"
  by (simp add: controller_processImage_def errorHandler_def)

lemma controller_processImage_not_found:
  "findUnique t i = None \<Longrightarrow>
   controller_processImage e t i =
     (\<lparr>statusCode = 404, message = ''Image not found''\<rparr>, \<lparr>tbl = t, log = []\<rparr>)"
  by (simp add: controller_processImage_def errorHandler_def)

lemma controller_processImage_no_op:
  "findUnique t i = Some img \<Longrightarrow> status img = FAILED \<or> status img = PROCESSING \<Longrightarrow>
   controller_processImage e t i =
     (\<lparr>statusCode = 202, message = ''Image processing started''\<rparr>, \<lparr>tbl = t, log = []\<rparr>)"
  by (auto simp: controller_processImage_def imageService_processImage_def)

text \<open>
  C2. On a PROCESSED record the handler answers 400 "Image already processed"
  (\<open>controller_processImage_PROCESSED\<close>). On a FAILED record it answers 202 "Image
  processing started", but the record is not put back to PENDING and no stage runs: the
  table is unchanged and the log is empty.
\<close>

theorem controller_processImage_FAILED:
  "findUnique example_table ''img-3'' = Some failed_row \<and> status failed_row = FAILED
   \<and> controller_processImage example_env example_table ''img-3'' =
        (\<lparr>statusCode = 202, message = ''Image processing started''\<rparr>,
         \<lparr>tbl = example_table, log = []\<rparr>)"
proof -
  have found: "findUnique example_table ''img-3'' = Some failed_row"
    by (simp add: rows_defs findUnique_def)
  have failed: "status failed_row = FAILED"
    by (simp add: failed_row_def)
  from controller_processImage_no_op [OF found] failed found show ?thesis
    by simp
qed

end
